theory Spec2Isabelle
  imports Complex_Main "HOL-Library.AList"
begin

section \<open>Python values, exceptions and effects\<close>

text \<open>
  The module \<^verbatim>\<open>timer.py\<close> measures the execution time of code blocks and keeps a
  bounded history of the samples of every identifier, in a \<^verbatim>\<open>defaultdict\<close> of
  \<^verbatim>\<open>deque\<close>s or in the lists of a redis server.

  Samples are Python floats. They are embedded as real numbers: rounding is outside the
  model, and so is the decimal text of a float. The two builtins that convert between a
  float and its text, \<^verbatim>\<open>str\<close> and \<^verbatim>\<open>float\<close>, are parameters of the model
  (\<open>float\<close> gives \<open>None\<close> where Python raises \<^verbatim>\<open>ValueError\<close>).
\<close>

type_synonym ident = string

datatype 'e error = TypeError | ValueError | OverflowError | ZeroDivisionError | BodyError 'e

record builtins =
  str :: "real \<Rightarrow> string"
  float :: "string \<Rightarrow> real option"

text \<open>
  Statements that change a state and may raise: the result is the exception (\<open>Inl\<close>) or
  the value (\<open>Inr\<close>), together with the state that is left behind in both cases.
\<close>

definition ret :: "'a \<Rightarrow> 's \<Rightarrow> ('x + 'a) \<times> 's" where
  "ret a s = (Inr a, s)"

definition throw :: "'x \<Rightarrow> 's \<Rightarrow> ('x + 'a) \<times> 's" where
  "throw e s = (Inl e, s)"

definition and_then ::
  "('s \<Rightarrow> ('x + 'a) \<times> 's) \<Rightarrow> ('a \<Rightarrow> 's \<Rightarrow> ('x + 'b) \<times> 's) \<Rightarrow> 's \<Rightarrow> ('x + 'b) \<times> 's" where
  "and_then m f s = (case m s of (Inl e, s') \<Rightarrow> (Inl e, s') | (Inr a, s') \<Rightarrow> f a s')"

text \<open>
  \<^verbatim>\<open>sum(iterable)\<close> starts at 0 and adds the elements from left to right; an element
  whose production raises (the generator of a redis item parses lazily) ends the sum with
  that exception.
\<close>

fun py_sum :: "('x + real) list \<Rightarrow> real \<Rightarrow> 'x + real" where
  "py_sum [] acc = Inr acc"
| "py_sum (Inl e # xs) acc = Inl e"
| "py_sum (Inr x # xs) acc = py_sum xs (acc + x)"


section \<open>The in-memory backend\<close>

text \<open>
  \<^verbatim>\<open>deque(maxlen=limit)\<close>: \<^verbatim>\<open>None\<close> is an unbounded deque. A number is first
  converted to the machine type \<^verbatim>\<open>Py_ssize_t\<close> (64 bits, signed, in a 64-bit CPython),
  which raises \<^verbatim>\<open>OverflowError\<close> outside that range; a negative bound then raises
  \<^verbatim>\<open>ValueError\<close>. \<^verbatim>\<open>append\<close> adds on the right and then drops the leftmost
  element when the bound is exceeded (so a deque of bound 0 stays empty).
\<close>

definition ssize_max :: int where
  "ssize_max = 9223372036854775807"

definition ssize_min :: int where
  "ssize_min = - 9223372036854775808"

record deque =
  items :: "real list"
  maxlen :: "nat option"

definition deque_new :: "int option \<Rightarrow> 'e error + deque" where
  "deque_new limit =
     (case limit of
        None \<Rightarrow> Inr \<lparr>items = [], maxlen = None\<rparr>
      | Some n \<Rightarrow>
          if n < ssize_min \<or> ssize_max < n then Inl OverflowError
          else if n < 0 then Inl ValueError
          else Inr \<lparr>items = [], maxlen = Some (nat n)\<rparr>)"

definition deque_append :: "real \<Rightarrow> deque \<Rightarrow> deque" where
  "deque_append v q =
     (let ys = items q @ [v] in
      case maxlen q of
        None \<Rightarrow> q\<lparr>items := ys\<rparr>
      | Some m \<Rightarrow> if m < length ys then q\<lparr>items := tl ys\<rparr> else q\<lparr>items := ys\<rparr>)"

text \<open>
  \<^verbatim>\<open>InMemoryBackend = lambda limit: defaultdict(lambda: deque(maxlen=limit))\<close>.
  The dictionary keeps the captured \<^verbatim>\<open>limit\<close> of its factory and its entries in
  insertion order. Nothing is checked when it is built: the factory runs at the first
  subscript of a missing key.
\<close>

record defaultdict =
  dd_limit :: "int option"
  dd_table :: "(ident \<times> deque) list"

definition InMemoryBackend :: "int option \<Rightarrow> defaultdict" where
  "InMemoryBackend limit = \<lparr>dd_limit = limit, dd_table = []\<rparr>"

definition defaultdict_contains :: "defaultdict \<Rightarrow> ident \<Rightarrow> bool" where
  "defaultdict_contains d k = (map_of (dd_table d) k \<noteq> None)"

definition defaultdict_getitem :: "defaultdict \<Rightarrow> ident \<Rightarrow> 'e error + (deque \<times> defaultdict)" where
  "defaultdict_getitem d k =
     (case map_of (dd_table d) k of
        Some q \<Rightarrow> Inr (q, d)
      | None \<Rightarrow>
          (case deque_new (dd_limit d) of
             Inl e \<Rightarrow> Inl e
           | Inr q \<Rightarrow> Inr (q, d\<lparr>dd_table := AList.update k q (dd_table d)\<rparr>)))"


section \<open>The redis backend\<close>

text \<open>
  The redis server behind the connection object: every key holds a list of strings (a
  key that does not exist is the empty list, and redis removes a list that becomes
  empty). The connection records the commands it was sent, in order.
\<close>

datatype command =
  EXISTS string
| LLEN string
| LRANGE string int int
| LPUSH string string
| LTRIM string int int

record connection =
  db :: "string \<Rightarrow> string list"
  log :: "command list"

text \<open>
  The range of \<^verbatim>\<open>LRANGE\<close> and \<^verbatim>\<open>LTRIM\<close>: both ends are inclusive, a negative
  index counts from the end of the list, and a range that is out of bounds is cut or
  empty, never an error.
\<close>

definition redis_range :: "'a list \<Rightarrow> int \<Rightarrow> int \<Rightarrow> 'a list" where
  "redis_range xs start stop =
     (let n = int (length xs);
          s0 = (if start < 0 then n + start else start);
          e0 = (if stop < 0 then n + stop else stop);
          s = (if s0 < 0 then 0 else s0)
      in if n \<le> s \<or> e0 < s then []
         else take (nat (min e0 (n - 1) - s + 1)) (drop (nat s) xs))"

definition redis_exists :: "string \<Rightarrow> connection \<Rightarrow> bool \<times> connection" where
  "redis_exists k c = (db c k \<noteq> [], c\<lparr>log := log c @ [EXISTS k]\<rparr>)"

definition redis_llen :: "string \<Rightarrow> connection \<Rightarrow> nat \<times> connection" where
  "redis_llen k c = (length (db c k), c\<lparr>log := log c @ [LLEN k]\<rparr>)"

definition redis_lrange :: "string \<Rightarrow> int \<Rightarrow> int \<Rightarrow> connection \<Rightarrow> string list \<times> connection" where
  "redis_lrange k start stop c =
     (redis_range (db c k) start stop, c\<lparr>log := log c @ [LRANGE k start stop]\<rparr>)"

definition redis_lpush :: "string \<Rightarrow> string \<Rightarrow> connection \<Rightarrow> connection" where
  "redis_lpush k v c = c\<lparr>db := (db c)(k := v # db c k), log := log c @ [LPUSH k v]\<rparr>"

definition redis_ltrim :: "string \<Rightarrow> int \<Rightarrow> int \<Rightarrow> connection \<Rightarrow> connection" where
  "redis_ltrim k start stop c =
     c\<lparr>db := (db c)(k := redis_range (db c k) start stop),
       log := log c @ [LTRIM k start stop]\<rparr>"

text \<open>
  \<^verbatim>\<open>RedisBackendItem\<close> holds the key and the limit; the connection it shares with its
  backend is the state its methods are run on.
\<close>

record RedisBackendItem =
  key :: string
  item_limit :: int

definition RedisBackendItem_len :: "RedisBackendItem \<Rightarrow> connection \<Rightarrow> nat \<times> connection" where
  "RedisBackendItem_len it c = redis_llen (key it) c"

definition RedisBackendItem_iter ::
  "builtins \<Rightarrow> RedisBackendItem \<Rightarrow> connection \<Rightarrow> ('e error + real) list \<times> connection" where
  "RedisBackendItem_iter py it c =
     (case redis_lrange (key it) 0 (- 1) c of
        (vs, c') \<Rightarrow>
          (map (\<lambda>value. case float py value of None \<Rightarrow> Inl ValueError | Some x \<Rightarrow> Inr x) vs, c'))"

definition RedisBackendItem_append ::
  "builtins \<Rightarrow> RedisBackendItem \<Rightarrow> real \<Rightarrow> connection \<Rightarrow> connection" where
  "RedisBackendItem_append py it v c =
     redis_ltrim (key it) 0 (item_limit it - 1) (redis_lpush (key it) (str py v) c)"

record RedisBackend =
  redis :: connection
  prefix :: string
  limit :: int

definition RedisBackend_init :: "connection \<Rightarrow> string option \<Rightarrow> int option \<Rightarrow> RedisBackend" where
  "RedisBackend_init r p l =
     \<lparr>redis = r,
      prefix = (case p of None \<Rightarrow> [] | Some s \<Rightarrow> s),
      limit = (case l of None \<Rightarrow> 100 | Some n \<Rightarrow> n)\<rparr>"

definition RedisBackend_contains :: "RedisBackend \<Rightarrow> ident \<Rightarrow> bool \<times> RedisBackend" where
  "RedisBackend_contains b k =
     (case redis_exists (prefix b @ k) (redis b) of (r, c) \<Rightarrow> (r, b\<lparr>redis := c\<rparr>))"

definition RedisBackend_getitem :: "RedisBackend \<Rightarrow> ident \<Rightarrow> RedisBackendItem" where
  "RedisBackend_getitem b k = \<lparr>key = prefix b @ k, item_limit = limit b\<rparr>"


section \<open>What a timer stores its measures in\<close>

text \<open>
  \<^verbatim>\<open>self.measures\<close> is whatever object the constructor was given. \<open>FactoryObject\<close>
  is the function \<^verbatim>\<open>InMemoryBackend\<close> itself, which is the default value of the
  parameter \<^verbatim>\<open>backend\<close>: a function has neither \<^verbatim>\<open>__contains__\<close> nor
  \<^verbatim>\<open>__getitem__\<close>, so \<^verbatim>\<open>in\<close> and a subscript raise \<^verbatim>\<open>TypeError\<close> on it.
\<close>

datatype backend = FactoryObject | InMemory defaultdict | Shared RedisBackend

text \<open>\<^verbatim>\<open>ident in self.measures\<close>\<close>

fun measures_contains :: "ident \<Rightarrow> backend \<Rightarrow> ('e error + bool) \<times> backend" where
  "measures_contains k FactoryObject = (Inl TypeError, FactoryObject)"
| "measures_contains k (InMemory d) = (Inr (defaultdict_contains d k), InMemory d)"
| "measures_contains k (Shared b) =
     (case RedisBackend_contains b k of (r, b') \<Rightarrow> (Inr r, Shared b'))"

text \<open>\<^verbatim>\<open>len(self.measures[ident])\<close>\<close>

fun measures_len :: "ident \<Rightarrow> backend \<Rightarrow> ('e error + nat) \<times> backend" where
  "measures_len k FactoryObject = (Inl TypeError, FactoryObject)"
| "measures_len k (InMemory d) =
     (case defaultdict_getitem d k of
        Inl e \<Rightarrow> (Inl e, InMemory d)
      | Inr (q, d') \<Rightarrow> (Inr (length (items q)), InMemory d'))"
| "measures_len k (Shared b) =
     (case RedisBackendItem_len (RedisBackend_getitem b k) (redis b) of
        (n, c) \<Rightarrow> (Inr n, Shared (b\<lparr>redis := c\<rparr>)))"

text \<open>\<^verbatim>\<open>sum(self.measures[ident])\<close>\<close>

fun measures_sum :: "builtins \<Rightarrow> ident \<Rightarrow> backend \<Rightarrow> ('e error + real) \<times> backend" where
  "measures_sum py k FactoryObject = (Inl TypeError, FactoryObject)"
| "measures_sum py k (InMemory d) =
     (case defaultdict_getitem d k of
        Inl e \<Rightarrow> (Inl e, InMemory d)
      | Inr (q, d') \<Rightarrow> (py_sum (map Inr (items q)) 0, InMemory d'))"
| "measures_sum py k (Shared b) =
     (case RedisBackendItem_iter py (RedisBackend_getitem b k) (redis b) of
        (vs, c) \<Rightarrow> (py_sum vs 0, Shared (b\<lparr>redis := c\<rparr>)))"

text \<open>
  \<^verbatim>\<open>self.measures[ident].append(value)\<close>: the deque is an object of the dictionary, so
  the appended deque is the entry of \<open>ident\<close> afterwards.
\<close>

fun measures_append :: "builtins \<Rightarrow> ident \<Rightarrow> real \<Rightarrow> backend \<Rightarrow> ('e error + unit) \<times> backend" where
  "measures_append py k v FactoryObject = (Inl TypeError, FactoryObject)"
| "measures_append py k v (InMemory d) =
     (case defaultdict_getitem d k of
        Inl e \<Rightarrow> (Inl e, InMemory d)
      | Inr (q, d') \<Rightarrow>
          (Inr (), InMemory (d'\<lparr>dd_table := AList.update k (deque_append v q) (dd_table d')\<rparr>)))"
| "measures_append py k v (Shared b) =
     (Inr (),
      Shared (b\<lparr>redis := RedisBackendItem_append py (RedisBackend_getitem b k) v (redis b)\<rparr>))"


section \<open>The timer\<close>

record Timer =
  measures :: backend

text \<open>
  \<^verbatim>\<open>def __init__(self, backend=InMemoryBackend): self.measures = backend\<close>.
  Without an argument the attribute is the factory, not a dictionary made by it.
\<close>

definition Timer_init :: "backend option \<Rightarrow> Timer" where
  "Timer_init backend =
     \<lparr>measures = (case backend of None \<Rightarrow> FactoryObject | Some b \<Rightarrow> b)\<rparr>"

definition self_measures :: "(backend \<Rightarrow> 'r \<times> backend) \<Rightarrow> Timer \<Rightarrow> 'r \<times> Timer" where
  "self_measures f t = (case f (measures t) of (r, m) \<Rightarrow> (r, t\<lparr>measures := m\<rparr>))"

definition getavg :: "builtins \<Rightarrow> ident \<Rightarrow> Timer \<Rightarrow> ('e error + real) \<times> Timer" where
  "getavg py ident =
     and_then (self_measures (measures_contains ident)) (\<lambda>known.
       if \<not> known then ret 0
       else and_then (self_measures (measures_len ident)) (\<lambda>n.
         if n = 0 then ret 0
         else and_then (self_measures (measures_sum py ident)) (\<lambda>s.
              and_then (self_measures (measures_len ident)) (\<lambda>n'.
                if n' = 0 then throw ZeroDivisionError else ret (s / real n')))))"

definition getsum :: "builtins \<Rightarrow> ident \<Rightarrow> Timer \<Rightarrow> ('e error + real) \<times> Timer" where
  "getsum py ident =
     and_then (self_measures (measures_contains ident)) (\<lambda>known.
       if \<not> known then ret 0
       else and_then (self_measures (measures_len ident)) (\<lambda>n.
         if n = 0 then ret 0
         else self_measures (measures_sum py ident)))"

definition get_time_estimate ::
  "builtins \<Rightarrow> ident \<Rightarrow> real \<Rightarrow> Timer \<Rightarrow> ('e error + real option) \<times> Timer" where
  "get_time_estimate py ident actions =
     and_then (self_measures (measures_contains ident)) (\<lambda>known.
       if \<not> known then ret None
       else and_then (self_measures (measures_len ident)) (\<lambda>n.
         if n = 0 then ret None
         else and_then (getavg py ident) (\<lambda>a. ret (Some (a * actions)))))"

text \<open>
  \<^verbatim>\<open>with timer(ident, method): body\<close>, that is \<^verbatim>\<open>Timer.__call__\<close> and the run of
  the context manager it returns. The state is the timer together with whatever
  the time source reads (\<open>'w\<close>); \<open>method\<close> reads a timestamp, and the body is any code
  on that state that finishes (\<open>None\<close>) or raises (\<open>Some e\<close>).

  The generator of \<^verbatim>\<open>context\<close> runs up to its \<^verbatim>\<open>yield\<close> on entry. When the body
  finishes, the generator is resumed and runs the statements after the \<^verbatim>\<open>yield\<close>. When
  the body raises, \<^verbatim>\<open>contextmanager\<close> throws the exception into the generator at the
  \<^verbatim>\<open>yield\<close>; the \<^verbatim>\<open>yield\<close> is in no \<^verbatim>\<open>try\<close> statement, so the exception leaves the
  generator there and the \<^verbatim>\<open>with\<close> statement raises it again.

  \<open>timer_end\<close> is the module's signal: \<open>None\<close> when \<^verbatim>\<open>blinker\<close> cannot be imported,
  otherwise what \<^verbatim>\<open>timer_end.send(self, ident, start, end)\<close> does, an exception or
  nothing.
\<close>

definition Timer_call ::
  "builtins \<Rightarrow> (Timer \<Rightarrow> ident \<Rightarrow> real \<Rightarrow> real \<Rightarrow> 'e error option) option \<Rightarrow> ident \<Rightarrow>
   ('w \<Rightarrow> real \<times> 'w) \<Rightarrow> (Timer \<times> 'w \<Rightarrow> 'e option \<times> Timer \<times> 'w) \<Rightarrow>
   Timer \<times> 'w \<Rightarrow> ('e error + unit) \<times> Timer \<times> 'w" where
  "Timer_call py timer_end ident method body st =
     (case st of (self, w) \<Rightarrow>
      case method w of (start, w1) \<Rightarrow>
      case body (self, w1) of
        (Some e, st2) \<Rightarrow> (Inl (BodyError e), st2)
      | (None, (self2, w2)) \<Rightarrow>
          (case method w2 of (end_time, w3) \<Rightarrow>
           case self_measures (measures_append py ident (end_time - start)) self2 of
             (Inl e, self3) \<Rightarrow> (Inl e, (self3, w3))
           | (Inr u, self3) \<Rightarrow>
               (case timer_end of
                  None \<Rightarrow> (Inr (), (self3, w3))
                | Some send \<Rightarrow>
                    (case send self3 ident start end_time of
                       None \<Rightarrow> (Inr (), (self3, w3))
                     | Some e \<Rightarrow> (Inl e, (self3, w3))))))"


section \<open>Observations and runs\<close>

text \<open>The samples an in-memory store retains for an identifier, oldest first.\<close>

definition history :: "defaultdict \<Rightarrow> ident \<Rightarrow> real list" where
  "history d k = (case map_of (dd_table d) k of None \<Rightarrow> [] | Some q \<Rightarrow> items q)"

text \<open>The entries the redis list of an identifier holds, newest first.\<close>

definition remote_list :: "RedisBackend \<Rightarrow> ident \<Rightarrow> string list" where
  "remote_list b k = db (redis b) (prefix b @ k)"

text \<open>The number of samples recorded for an identifier in a store.\<close>

fun recorded :: "backend \<Rightarrow> ident \<Rightarrow> nat" where
  "recorded FactoryObject k = 0"
| "recorded (InMemory d) k = length (history d k)"
| "recorded (Shared b) k = length (remote_list b k)"

fun is_store :: "backend \<Rightarrow> bool" where
  "is_store FactoryObject = False"
| "is_store (InMemory d) = True"
| "is_store (Shared b) = True"

text \<open>Appending a sequence of values to one identifier, stopping at the first exception.\<close>

fun appends :: "builtins \<Rightarrow> ident \<Rightarrow> real list \<Rightarrow> backend \<Rightarrow> ('e error + unit) \<times> backend" where
  "appends py k [] m = (Inr (), m)"
| "appends py k (v # vs) m =
     (case measures_append py k v m of
        (Inl e, m') \<Rightarrow> (Inl e, m')
      | (Inr u, m') \<Rightarrow> appends py k vs m')"

text \<open>A sequence of statistics queries, each run on the timer the previous one left.\<close>

datatype query = GetSum ident | GetAvg ident | GetTimeEstimate ident real

fun run_query :: "builtins \<Rightarrow> query \<Rightarrow> Timer \<Rightarrow> Timer" where
  "run_query py (GetSum k) t = snd (getsum py k t :: (unit error + real) \<times> Timer)"
| "run_query py (GetAvg k) t = snd (getavg py k t :: (unit error + real) \<times> Timer)"
| "run_query py (GetTimeEstimate k n) t =
     snd (get_time_estimate py k n t :: (unit error + real option) \<times> Timer)"

fun run_queries :: "builtins \<Rightarrow> query list \<Rightarrow> Timer \<Rightarrow> Timer" where
  "run_queries py [] t = t"
| "run_queries py (q # qs) t = run_queries py qs (run_query py q t)"

text \<open>
  The stores the operations of this module build and fill: the limit is a number that a
  deque accepts as its bound, and every deque has that bound and respects it.
\<close>

definition dd_inv :: "defaultdict \<Rightarrow> bool" where
  "dd_inv d =
     (case dd_limit d of
        None \<Rightarrow> False
      | Some L \<Rightarrow> 0 \<le> L \<and> L \<le> ssize_max \<and>
          list_all (\<lambda>(k, q). maxlen q = Some (nat L) \<and> length (items q) \<le> nat L) (dd_table d))"

text \<open>
  The floats the entries of a redis list are parsed to, as the generator of
  \<^verbatim>\<open>RedisBackendItem.__iter__\<close> yields them.
\<close>

definition parsed :: "builtins \<Rightarrow> string list \<Rightarrow> ('e error + real) list" where
  "parsed py vs =
     map (\<lambda>value. case float py value of None \<Rightarrow> Inl ValueError | Some x \<Rightarrow> Inr x) vs"

text \<open>
  Builtins for runs on concrete values: the text of a float is only needed for the
  samples of the runs below, and \<open>float\<close> reads these texts back.
\<close>

definition sample_py :: builtins where
  "sample_py =
     \<lparr>str = (\<lambda>x. if x = 1 then ''1.0'' else if x = 2 then ''2.0'' else if x = 3 then ''3.0''
                 else if x = 4 then ''4.0'' else ''0.0''),
      float = (\<lambda>s. if s = ''1.0'' then Some 1 else if s = ''2.0'' then Some 2
                 else if s = ''3.0'' then Some 3 else if s = ''4.0'' then Some 4
                 else if s = ''0.0'' then Some 0 else None)\<rparr>"

text \<open>
  A redis backend with prefix \<^verbatim>\<open>t:\<close> and limit 3 whose server holds three samples of
  the identifier \<^verbatim>\<open>job\<close>, newest first.
\<close>

definition job_shared :: RedisBackend where
  "job_shared =
     RedisBackend_init
       \<lparr>db = (\<lambda>k. if k = ''t:job'' then [''4.0'', ''3.0'', ''2.0''] else []), log = []\<rparr>
       (Some ''t:'') (Some 3)"

text \<open>A redis backend with prefix \<^verbatim>\<open>t:\<close> and limit 3 on a server without keys.\<close>

definition empty_shared :: RedisBackend where
  "empty_shared = RedisBackend_init \<lparr>db = (\<lambda>k. []), log = []\<rparr> (Some ''t:'') (Some 3)"




section \<open>The statistics in closed form\<close>

lemma py_sum_Inr: "py_sum (map Inr xs) a = Inr (a + sum_list xs)"
  by (induction xs arbitrary: a) (simp_all add: add.assoc)

lemmas timer_defs = getsum_def getavg_def get_time_estimate_def and_then_def ret_def throw_def
  self_measures_def

lemma getitem_present:
  "map_of (dd_table d) k = Some q \<Longrightarrow> defaultdict_getitem d k = Inr (q, d)"
  by (simp add: defaultdict_getitem_def)

lemma getsum_InMemory:
  "measures t = InMemory d \<Longrightarrow> getsum py k t = (Inr (sum_list (history d k)), t)"
  by (cases "map_of (dd_table d) k")
     (simp_all add: timer_defs defaultdict_contains_def history_def getitem_present py_sum_Inr)

lemma getavg_InMemory:
  "measures t = InMemory d \<Longrightarrow>
   getavg py k t =
     (Inr (if history d k = [] then 0
           else sum_list (history d k) / real (length (history d k))), t)"
  by (cases "map_of (dd_table d) k")
     (simp_all add: timer_defs defaultdict_contains_def history_def getitem_present py_sum_Inr)

lemma get_time_estimate_InMemory:
  "measures t = InMemory d \<Longrightarrow>
   get_time_estimate py k n t =
     (Inr (if history d k = [] then None
           else Some (sum_list (history d k) / real (length (history d k)) * n)), t)"
  by (cases "map_of (dd_table d) k")
     (simp_all add: timer_defs defaultdict_contains_def history_def getitem_present py_sum_Inr)

lemma redis_range_all: "redis_range xs 0 (- 1) = xs"
  by (cases xs) (simp_all add: redis_range_def Let_def)

lemmas redis_defs = RedisBackend_contains_def RedisBackend_getitem_def RedisBackendItem_len_def
  RedisBackendItem_iter_def redis_exists_def redis_llen_def redis_lrange_def

lemma getsum_Shared:
  "measures t = Shared b \<Longrightarrow>
   fst (getsum py k t) =
     (if remote_list b k = [] then Inr 0 else py_sum (parsed py (remote_list b k)) 0)"
  by (simp add: timer_defs redis_defs remote_list_def parsed_def redis_range_all)

lemma getavg_Shared:
  "measures t = Shared b \<Longrightarrow>
   fst (getavg py k t) =
     (if remote_list b k = [] then Inr 0
      else case py_sum (parsed py (remote_list b k)) 0 of
             Inl e \<Rightarrow> Inl e
           | Inr s \<Rightarrow> Inr (s / real (length (remote_list b k))))"
  by (simp add: timer_defs redis_defs remote_list_def parsed_def redis_range_all
      split: sum.splits)

lemma get_time_estimate_Shared:
  "measures t = Shared b \<Longrightarrow>
   fst (get_time_estimate py k n t) =
     (if remote_list b k = [] then Inr None
      else case py_sum (parsed py (remote_list b k)) 0 of
             Inl e \<Rightarrow> Inl e
           | Inr s \<Rightarrow> Inr (Some (s / real (length (remote_list b k)) * n)))"
  by (simp add: timer_defs redis_defs remote_list_def parsed_def redis_range_all
      split: sum.splits)


section \<open>Statistics of an identifier without samples\<close>

text \<open>
  Claim C5. For an identifier that the store of the timer does not know, or that has no
  recorded sample, \<open>getsum\<close> and \<open>getavg\<close> return exactly 0.0, and
  \<open>get_time_estimate\<close> returns \<^verbatim>\<open>None\<close>, which is not the estimate 0.0. This holds
  for the in-memory store and for the redis store.
\<close>

theorem no_samples_defaults:
  assumes "is_store (measures t)" and "recorded (measures t) k = 0"
  shows "fst (getsum py k t) = (Inr 0 :: 'e error + real) \<and>
         fst (getavg py k t) = (Inr 0 :: 'e error + real) \<and>
         fst (get_time_estimate py k n t) = (Inr None :: 'e error + real option) \<and>
         fst (get_time_estimate py k n t) \<noteq> (Inr (Some 0) :: 'e error + real option)"
proof (cases "measures t")
  case FactoryObject
  with assms show ?thesis by simp
next
  case (InMemory d)
  with assms show ?thesis
    by (simp add: getsum_InMemory getavg_InMemory get_time_estimate_InMemory)
next
  case (Shared b)
  with assms show ?thesis
    by (simp add: getsum_Shared getavg_Shared get_time_estimate_Shared)
qed

theorem no_samples_defaults_witness:
  "is_store (measures (Timer_init (Some (InMemory (InMemoryBackend (Some 3)))))) \<and>
   recorded (measures (Timer_init (Some (InMemory (InMemoryBackend (Some 3))))))
     ''never-touched'' = 0 \<and>
   fst (getsum sample_py ''never-touched''
          (Timer_init (Some (InMemory (InMemoryBackend (Some 3))))))
     = (Inr 0 :: unit error + real) \<and>
   fst (getavg sample_py ''never-touched''
          (Timer_init (Some (InMemory (InMemoryBackend (Some 3))))))
     = (Inr 0 :: unit error + real) \<and>
   fst (get_time_estimate sample_py ''never-touched'' 10
          (Timer_init (Some (InMemory (InMemoryBackend (Some 3))))))
     = (Inr None :: unit error + real option)"
  using no_samples_defaults [where 'e = unit and py = sample_py and n = 10
      and k = "''never-touched''"
      and t = "Timer_init (Some (InMemory (InMemoryBackend (Some 3))))"]
  by (simp add: Timer_init_def InMemoryBackend_def history_def)


section \<open>The average\<close>

text \<open>
  Claim C6. For an identifier with at least one recorded sample, \<open>getavg\<close> is \<open>getsum\<close>
  divided by the number of retained samples, in the in-memory store and in the redis
  store (where both raise the same \<^verbatim>\<open>ValueError\<close> when an entry is not a number).
\<close>

theorem getavg_is_getsum_over_len:
  assumes "is_store (measures t)" and "0 < recorded (measures t) k"
  shows "fst (getavg py k t) =
         (case fst (getsum py k t) of
            Inl e \<Rightarrow> Inl e
          | Inr s \<Rightarrow> (Inr (s / real (recorded (measures t) k)) :: 'e error + real))"
proof (cases "measures t")
  case FactoryObject
  with assms show ?thesis by simp
next
  case (InMemory d)
  with assms show ?thesis
    by (simp add: getsum_InMemory getavg_InMemory)
next
  case (Shared b)
  with assms show ?thesis
    by (simp add: getsum_Shared getavg_Shared split: sum.splits)
qed

theorem getavg_is_getsum_over_len_witness:
  "is_store (measures (Timer_init (Some (Shared job_shared)))) \<and>
   0 < recorded (measures (Timer_init (Some (Shared job_shared)))) ''job'' \<and>
   fst (getsum sample_py ''job'' (Timer_init (Some (Shared job_shared))))
     = (Inr 9 :: unit error + real) \<and>
   recorded (measures (Timer_init (Some (Shared job_shared)))) ''job'' = 3 \<and>
   fst (getavg sample_py ''job'' (Timer_init (Some (Shared job_shared))))
     = (Inr (9 / 3) :: unit error + real)"
  using getavg_is_getsum_over_len [where 'e = unit and py = sample_py and k = "''job''"
      and t = "Timer_init (Some (Shared job_shared))"]
  by (simp add: Timer_init_def job_shared_def RedisBackend_init_def remote_list_def
      getsum_Shared parsed_def sample_py_def)

section \<open>The estimate\<close>

lemma job_run:
  "appends py ''job'' [1, 2, 3, 4] (InMemory (InMemoryBackend (Some 3))) =
     (Inr (), InMemory \<lparr>dd_limit = Some 3,
        dd_table = [(''job'', \<lparr>items = [2, 3, 4], maxlen = Some 3\<rparr>)]\<rparr>)"
  by (simp add: InMemoryBackend_def defaultdict_getitem_def deque_new_def deque_append_def
      ssize_max_def ssize_min_def)

text \<open>
  Claim C7. For an identifier with at least one recorded sample and every number of
  actions \<open>n\<close>, \<open>get_time_estimate\<close> is \<open>getavg\<close> times \<open>n\<close>. With capacity 3 and the
  appends 1.0, 2.0, 3.0, 4.0 to \<^verbatim>\<open>job\<close>, the retained samples are 2.0, 3.0, 4.0, the sum
  is 9.0, the average 3.0 and the estimate for 5 actions 15.0.
\<close>

theorem estimate_is_getavg_times_actions:
  "(is_store (measures t) \<longrightarrow> 0 < recorded (measures t) k \<longrightarrow>
      fst (get_time_estimate py k n t) =
        (case fst (getavg py k t) of
           Inl e \<Rightarrow> Inl e
         | Inr a \<Rightarrow> (Inr (Some (a * n)) :: 'e error + real option))) \<and>
   (\<exists>d. appends py ''job'' [1, 2, 3, 4] (InMemory (InMemoryBackend (Some 3)))
           = (Inr () :: 'e error + unit, InMemory d) \<and>
        history d ''job'' = [2, 3, 4] \<and>
        fst (getsum py ''job'' (Timer_init (Some (InMemory d)))) = (Inr 9 :: 'e error + real) \<and>
        fst (getavg py ''job'' (Timer_init (Some (InMemory d)))) = (Inr 3 :: 'e error + real) \<and>
        fst (get_time_estimate py ''job'' 5 (Timer_init (Some (InMemory d))))
          = (Inr (Some 15) :: 'e error + real option))"
proof (intro conjI impI)
  assume a: "is_store (measures t)" "0 < recorded (measures t) k"
  show "fst (get_time_estimate py k n t) =
        (case fst (getavg py k t) of
           Inl e \<Rightarrow> Inl e
         | Inr a \<Rightarrow> (Inr (Some (a * n)) :: 'e error + real option))"
  proof (cases "measures t")
    case FactoryObject
    with a show ?thesis by simp
  next
    case (InMemory d)
    with a show ?thesis
      by (simp add: getavg_InMemory get_time_estimate_InMemory)
  next
    case (Shared b)
    with a show ?thesis
      by (simp add: getavg_Shared get_time_estimate_Shared split: sum.splits)
  qed
next
  let ?d = "\<lparr>dd_limit = Some 3, dd_table = [(''job'', \<lparr>items = [2, 3, 4], maxlen = Some 3\<rparr>)]\<rparr>"
  have m: "measures (Timer_init (Some (InMemory ?d))) = InMemory ?d"
    by (simp add: Timer_init_def)
  have h: "history ?d ''job'' = [2, 3, 4]"
    by (simp add: history_def)
  show "\<exists>d. appends py ''job'' [1, 2, 3, 4] (InMemory (InMemoryBackend (Some 3)))
           = (Inr () :: 'e error + unit, InMemory d) \<and>
        history d ''job'' = [2, 3, 4] \<and>
        fst (getsum py ''job'' (Timer_init (Some (InMemory d)))) = (Inr 9 :: 'e error + real) \<and>
        fst (getavg py ''job'' (Timer_init (Some (InMemory d)))) = (Inr 3 :: 'e error + real) \<and>
        fst (get_time_estimate py ''job'' 5 (Timer_init (Some (InMemory d))))
          = (Inr (Some 15) :: 'e error + real option)"
    by (rule exI [of _ ?d])
       (simp del: appends.simps add: job_run getsum_InMemory [OF m] getavg_InMemory [OF m]
          get_time_estimate_InMemory [OF m] h)
qed

theorem estimate_is_getavg_times_actions_witness:
  "is_store (measures (Timer_init (Some (Shared job_shared)))) \<and>
   0 < recorded (measures (Timer_init (Some (Shared job_shared)))) ''job'' \<and>
   fst (getavg sample_py ''job'' (Timer_init (Some (Shared job_shared))))
     = (Inr 3 :: unit error + real) \<and>
   fst (get_time_estimate sample_py ''job'' 5 (Timer_init (Some (Shared job_shared))))
     = (Inr (Some (3 * 5)) :: unit error + real option)"
  using estimate_is_getavg_times_actions [where 'e = unit and py = sample_py and k = "''job''"
      and n = 5 and t = "Timer_init (Some (Shared job_shared))"]
  by (simp add: Timer_init_def job_shared_def RedisBackend_init_def remote_list_def
      getavg_Shared parsed_def sample_py_def)


section \<open>The statistics leave an in-memory store as it is\<close>

lemma run_query_InMemory: "measures t = InMemory d \<Longrightarrow> run_query py q t = t"
  by (cases q) (simp_all add: getsum_InMemory getavg_InMemory get_time_estimate_InMemory)

lemma run_queries_InMemory: "measures t = InMemory d \<Longrightarrow> run_queries py qs t = t"
  by (induction qs) (simp_all add: run_query_InMemory)

text \<open>
  Claim C10. On an in-memory store, \<open>getsum\<close>, \<open>getavg\<close> and \<open>get_time_estimate\<close> only
  read: each of them, and every sequence of them, leaves the timer and its dictionary as
  they were. For an identifier that is not in the dictionary they return the default
  (0.0, 0.0, \<^verbatim>\<open>None\<close>) and no entry is made for it: the test \<^verbatim>\<open>ident not in
  self.measures\<close> comes first and the subscript is not evaluated.
\<close>

theorem statistics_read_only:
  assumes "measures t = InMemory d"
  shows "snd (getsum py k t :: ('e error + real) \<times> Timer) = t \<and>
         snd (getavg py k t :: ('e error + real) \<times> Timer) = t \<and>
         snd (get_time_estimate py k n t :: ('e error + real option) \<times> Timer) = t \<and>
         run_queries py qs t = t \<and>
         (\<not> defaultdict_contains d k \<longrightarrow>
            getsum py k t = (Inr 0 :: 'e error + real, t) \<and>
            getavg py k t = (Inr 0 :: 'e error + real, t) \<and>
            get_time_estimate py k n t = (Inr None :: 'e error + real option, t))"
  using assms
  by (simp add: getsum_InMemory getavg_InMemory get_time_estimate_InMemory
      run_queries_InMemory defaultdict_contains_def history_def)

theorem statistics_read_only_witness:
  "measures (Timer_init (Some (InMemory (InMemoryBackend (Some 3)))))
     = InMemory (InMemoryBackend (Some 3)) \<and>
   \<not> defaultdict_contains (InMemoryBackend (Some 3)) ''never-touched'' \<and>
   run_queries sample_py
     [GetAvg ''never-touched'', GetSum ''never-touched'', GetTimeEstimate ''never-touched'' 10]
     (Timer_init (Some (InMemory (InMemoryBackend (Some 3)))))
     = Timer_init (Some (InMemory (InMemoryBackend (Some 3)))) \<and>
   getsum sample_py ''never-touched'' (Timer_init (Some (InMemory (InMemoryBackend (Some 3)))))
     = (Inr 0 :: unit error + real, Timer_init (Some (InMemory (InMemoryBackend (Some 3)))))"
  using statistics_read_only [where 'e = unit and py = sample_py and k = "''never-touched''"
      and n = 10 and d = "InMemoryBackend (Some 3)"
      and t = "Timer_init (Some (InMemory (InMemoryBackend (Some 3))))"
      and qs = "[GetAvg ''never-touched'', GetSum ''never-touched'',
                 GetTimeEstimate ''never-touched'' 10]"]
  by (simp add: Timer_init_def InMemoryBackend_def defaultdict_contains_def)

section \<open>A timer built without a backend\<close>

text \<open>
  Claim C2. A timer built without a backend should own a fresh in-memory store and work
  like a timer that was given one. In the code the attribute \<^verbatim>\<open>measures\<close> of such a
  timer is the function \<^verbatim>\<open>InMemoryBackend\<close>, not a dictionary: every statistics query
  and the exit of every timed block raise \<^verbatim>\<open>TypeError\<close>, where a timer with an explicit
  in-memory store answers 0.0 and records the sample.
\<close>

theorem default_timer_raises:
  "measures (Timer_init None) = FactoryObject \<and>
   fst (getsum py k (Timer_init None)) = (Inl TypeError :: 'e error + real) \<and>
   fst (getavg py k (Timer_init None)) = (Inl TypeError :: 'e error + real) \<and>
   fst (get_time_estimate py k n (Timer_init None)) = (Inl TypeError :: 'e error + real option) \<and>
   fst (Timer_call py None k method (\<lambda>st. (None, st)) (Timer_init None, w))
     = (Inl TypeError :: 'e error + unit) \<and>
   fst (getsum py k (Timer_init (Some (InMemory (InMemoryBackend L)))))
     = (Inr 0 :: 'e error + real) \<and>
   fst (Timer_call py None k method (\<lambda>st. (None, st))
          (Timer_init (Some (InMemory (InMemoryBackend (Some 3)))), w))
     = (Inr () :: 'e error + unit)"
  by (simp add: Timer_init_def timer_defs Timer_call_def InMemoryBackend_def
      defaultdict_contains_def defaultdict_getitem_def deque_new_def ssize_max_def
      ssize_min_def split: prod.splits)


section \<open>Appending to the redis store\<close>

lemma redis_range_take:
  assumes "1 \<le> L"
  shows "redis_range xs 0 (L - 1) = take (nat L) xs"
proof (cases "xs = []")
  case True
  then show ?thesis by (simp add: redis_range_def)
next
  case False
  then have n: "0 < length xs" by simp
  have "nat (min (L - 1) (int (length xs) - 1) + 1) = min (nat L) (length xs)"
    using assms n by (simp add: min_def) linarith
  then have "redis_range xs 0 (L - 1) = take (min (nat L) (length xs)) xs"
    using assms n by (simp add: redis_range_def Let_def)
  also have "\<dots> = take (nat L) xs"
    by (simp add: min_def)
  finally show ?thesis .
qed

lemma RedisBackendItem_append_eq:
  "RedisBackendItem_append py (RedisBackend_getitem b k) v c =
     c\<lparr>db := (db c)(prefix b @ k := redis_range (str py v # db c (prefix b @ k)) 0 (limit b - 1)),
       log := log c @ [LPUSH (prefix b @ k) (str py v), LTRIM (prefix b @ k) 0 (limit b - 1)]\<rparr>"
  by (simp add: RedisBackendItem_append_def RedisBackend_getitem_def redis_ltrim_def
      redis_lpush_def)

text \<open>
  Claim C8. \<open>append\<close> of the redis store sends exactly two commands, in this order:
  \<^verbatim>\<open>LPUSH\<close> of the text of the value to the key \<open>prefix + id\<close>, then \<^verbatim>\<open>LTRIM\<close> of
  that key to the indices 0 to \<open>limit - 1\<close>, which for a limit of at least 1 keeps the
  \<open>limit\<close> newest entries. No other key of the server changes.
\<close>

theorem shared_append_two_commands:
  "log (RedisBackendItem_append py (RedisBackend_getitem b k) v c)
     = log c @ [LPUSH (prefix b @ k) (str py v), LTRIM (prefix b @ k) 0 (limit b - 1)] \<and>
   db (RedisBackendItem_append py (RedisBackend_getitem b k) v c) (prefix b @ k)
     = redis_range (str py v # db c (prefix b @ k)) 0 (limit b - 1) \<and>
   (1 \<le> limit b \<longrightarrow>
      db (RedisBackendItem_append py (RedisBackend_getitem b k) v c) (prefix b @ k)
        = take (nat (limit b)) (str py v # db c (prefix b @ k))) \<and>
   (\<forall>k'. k' \<noteq> prefix b @ k \<longrightarrow>
      db (RedisBackendItem_append py (RedisBackend_getitem b k) v c) k' = db c k') \<and>
   measures_append py k v (Shared b)
     = (Inr () :: 'e error + unit,
        Shared (b\<lparr>redis := RedisBackendItem_append py (RedisBackend_getitem b k) v (redis b)\<rparr>))"
  by (simp add: RedisBackendItem_append_eq redis_range_take del: take_Suc_Cons)

theorem shared_append_two_commands_witness:
  "1 \<le> limit job_shared \<and>
   log (RedisBackendItem_append sample_py (RedisBackend_getitem job_shared ''job'') 1
          (redis job_shared))
     = [LPUSH ''t:job'' ''1.0'', LTRIM ''t:job'' 0 2] \<and>
   db (RedisBackendItem_append sample_py (RedisBackend_getitem job_shared ''job'') 1
         (redis job_shared)) ''t:job''
     = [''1.0'', ''4.0'', ''3.0''] \<and>
   db (RedisBackendItem_append sample_py (RedisBackend_getitem job_shared ''job'') 1
         (redis job_shared)) ''t:other''
     = db (redis job_shared) ''t:other''"
  using shared_append_two_commands [where 'e = unit and py = sample_py and b = job_shared
      and k = "''job''" and v = 1 and c = "redis job_shared"]
  by (simp add: job_shared_def RedisBackend_init_def sample_py_def RedisBackendItem_append_eq
      redis_range_def)


section \<open>Bounded histories\<close>

subsection \<open>The deque\<close>

lemma drop_one_tl: "drop (Suc 0) ys = tl ys"
  by (cases ys) simp_all

lemma deque_append_bounded:
  assumes "maxlen q = Some m" and "length (items q) \<le> m"
  shows "items (deque_append v q) = drop (Suc (length (items q)) - m) (items q @ [v])"
    and "maxlen (deque_append v q) = Some m"
    and "length (items (deque_append v q)) \<le> m"
proof -
  show "maxlen (deque_append v q) = Some m"
    using assms by (simp add: deque_append_def Let_def)
  show "items (deque_append v q) = drop (Suc (length (items q)) - m) (items q @ [v])"
  proof (cases "length (items q) = m")
    case True
    then have one: "Suc (length (items q)) - m = Suc 0" by simp
    have "items (deque_append v q) = tl (items q @ [v])"
      using True assms by (simp add: deque_append_def Let_def)
    also have "\<dots> = drop (Suc 0) (items q @ [v])"
      by (rule drop_one_tl [symmetric])
    finally show ?thesis
      unfolding one .
  next
    case False
    with assms have "length (items q) < m" by simp
    with assms show ?thesis
      by (simp add: deque_append_def Let_def)
  qed
  then show "length (items (deque_append v q)) \<le> m"
    using assms by simp
qed

subsection \<open>The dictionary of deques\<close>

lemma list_all_update:
  "list_all P al \<Longrightarrow> P (k, v) \<Longrightarrow> list_all P (AList.update k v al)"
  by (induction al) auto

lemma dd_inv_lookup:
  assumes "dd_inv d" and "dd_limit d = Some L" and "map_of (dd_table d) k = Some q"
  shows "maxlen q = Some (nat L) \<and> length (items q) \<le> nat L"
proof -
  from assms(3) have "(k, q) \<in> set (dd_table d)" by (rule map_of_SomeD)
  with assms(1,2) show ?thesis
    by (auto simp: dd_inv_def list_all_iff)
qed

lemma history_le_limit:
  assumes "dd_inv d" and "dd_limit d = Some L"
  shows "length (history d k) \<le> nat L"
proof (cases "map_of (dd_table d) k")
  case None
  then show ?thesis by (simp add: history_def)
next
  case (Some q)
  with dd_inv_lookup [OF assms Some] show ?thesis by (simp add: history_def)
qed

lemma dd_inv_InMemoryBackend:
  "0 \<le> L \<Longrightarrow> L \<le> ssize_max \<Longrightarrow> dd_inv (InMemoryBackend (Some L))"
  by (simp add: dd_inv_def InMemoryBackend_def)

lemma measures_append_InMemory:
  assumes "dd_inv d" and "dd_limit d = Some L"
  shows "\<exists>d'. measures_append py k v (InMemory d) = (Inr () :: 'e error + unit, InMemory d') \<and>
           dd_inv d' \<and> dd_limit d' = Some L \<and>
           history d' k = drop (Suc (length (history d k)) - nat L) (history d k @ [v]) \<and>
           (\<forall>k'. k' \<noteq> k \<longrightarrow> history d' k' = history d k')"
proof -
  from assms have L: "0 \<le> L" "L \<le> ssize_max" by (simp_all add: dd_inv_def)
  let ?P = "\<lambda>(k, q). maxlen q = Some (nat L) \<and> length (items q) \<le> nat L"
  from assms have all: "list_all ?P (dd_table d)" by (simp add: dd_inv_def)
  show ?thesis
  proof (cases "map_of (dd_table d) k")
    case None
    let ?q0 = "\<lparr>items = [], maxlen = Some (nat L)\<rparr>"
    let ?d' = "d\<lparr>dd_table := AList.update k (deque_append v ?q0) (AList.update k ?q0 (dd_table d))\<rparr>"
    have q0: "maxlen ?q0 = Some (nat L)" "length (items ?q0) \<le> nat L" by simp_all
    have run: "measures_append py k v (InMemory d) = (Inr () :: 'e error + unit, InMemory ?d')"
      using None assms(2) L by (simp add: defaultdict_getitem_def deque_new_def ssize_min_def)
    have inv: "dd_inv ?d'"
      using assms(2) L all deque_append_bounded(2,3) [OF q0, of v]
      by (simp add: dd_inv_def list_all_update)
    have h: "history ?d' k = drop (Suc (length (history d k)) - nat L) (history d k @ [v])"
      using None deque_append_bounded(1) [OF q0, of v]
      by (simp add: history_def update_conv')
    have other: "\<forall>k'. k' \<noteq> k \<longrightarrow> history ?d' k' = history d k'"
      by (simp add: history_def update_conv')
    from run inv h other assms(2) show ?thesis by (intro exI [of _ ?d']) simp
  next
    case (Some q)
    let ?d' = "d\<lparr>dd_table := AList.update k (deque_append v q) (dd_table d)\<rparr>"
    from dd_inv_lookup [OF assms Some]
    have q: "maxlen q = Some (nat L)" "length (items q) \<le> nat L" by simp_all
    have run: "measures_append py k v (InMemory d) = (Inr () :: 'e error + unit, InMemory ?d')"
      using Some by (simp add: getitem_present)
    have inv: "dd_inv ?d'"
      using assms(2) L all deque_append_bounded(2,3) [OF q, of v]
      by (simp add: dd_inv_def list_all_update)
    have h: "history ?d' k = drop (Suc (length (history d k)) - nat L) (history d k @ [v])"
      using Some deque_append_bounded(1) [OF q, of v]
      by (simp add: history_def update_conv')
    have other: "\<forall>k'. k' \<noteq> k \<longrightarrow> history ?d' k' = history d k'"
      by (simp add: history_def update_conv')
    from run inv h other assms(2) show ?thesis by (intro exI [of _ ?d']) simp
  qed
qed

lemma keep_last_step:
  assumes "length h \<le> m"
  shows "drop (length (drop (Suc (length h) - m) (h @ [v]) @ vs) - m)
           (drop (Suc (length h) - m) (h @ [v]) @ vs)
         = drop (length (h @ v # vs) - m) (h @ v # vs)"
proof (cases "length h = m")
  case True
  then have one: "Suc (length h) - m = Suc 0" by simp
  have t: "tl (h @ [v]) @ vs = tl (h @ v # vs)"
    by (cases h) simp_all
  have "length (tl (h @ [v]) @ vs) - m = length vs"
    using True by simp
  then have "drop (length (tl (h @ [v]) @ vs) - m) (tl (h @ [v]) @ vs)
             = drop (length vs) (tl (h @ v # vs))"
    using t by simp
  also have "\<dots> = drop (Suc (length vs)) (h @ v # vs)"
    by (simp only: drop_Suc)
  also have "Suc (length vs) = length (h @ v # vs) - m"
    using True by simp
  finally show ?thesis
    unfolding one drop_one_tl .
next
  case False
  with assms have "Suc (length h) - m = 0" by simp
  then show ?thesis by simp
qed

lemma appends_InMemory:
  assumes "dd_inv d" and "dd_limit d = Some L"
  shows "\<exists>d'. appends py k vs (InMemory d) = (Inr () :: 'e error + unit, InMemory d') \<and>
           dd_inv d' \<and> dd_limit d' = Some L \<and>
           history d' k = drop (length (history d k @ vs) - nat L) (history d k @ vs) \<and>
           (\<forall>k'. k' \<noteq> k \<longrightarrow> history d' k' = history d k')"
  using assms
proof (induction vs arbitrary: d)
  case Nil
  from history_le_limit [OF Nil] show ?case
    using Nil by simp
next
  case (Cons v vs)
  from measures_append_InMemory [OF Cons.prems, of py k v]
  obtain d1 where d1:
    "measures_append py k v (InMemory d) = (Inr () :: 'e error + unit, InMemory d1)"
    "dd_inv d1" "dd_limit d1 = Some L"
    "history d1 k = drop (Suc (length (history d k)) - nat L) (history d k @ [v])"
    "\<forall>k'. k' \<noteq> k \<longrightarrow> history d1 k' = history d k'"
    by blast
  from Cons.IH [OF d1(2,3)]
  obtain d' where d':
    "appends py k vs (InMemory d1) = (Inr () :: 'e error + unit, InMemory d')"
    "dd_inv d'" "dd_limit d' = Some L"
    "history d' k = drop (length (history d1 k @ vs) - nat L) (history d1 k @ vs)"
    "\<forall>k'. k' \<noteq> k \<longrightarrow> history d' k' = history d1 k'"
    by blast
  have "history d' k = drop (length (history d k @ v # vs) - nat L) (history d k @ v # vs)"
    unfolding d'(4) d1(4)
    by (rule keep_last_step) (rule history_le_limit [OF Cons.prems])
  moreover have "appends py k (v # vs) (InMemory d) = (Inr () :: 'e error + unit, InMemory d')"
    using d1(1) d'(1) by simp
  ultimately show ?case
    using d'(2,3,5) d1(5) by (intro exI [of _ d']) simp
qed

subsection \<open>The redis list\<close>

lemma take_append_take: "take n (xs @ take n ys) = take n (xs @ ys)"
  by (simp add: min_def)

lemma measures_append_Shared:
  assumes "1 \<le> limit b"
  shows "\<exists>b'. measures_append py k v (Shared b) = (Inr () :: 'e error + unit, Shared b') \<and>
           prefix b' = prefix b \<and> limit b' = limit b \<and>
           remote_list b' k = take (nat (limit b)) (str py v # remote_list b k)"
  using assms
  by (simp add: RedisBackendItem_append_eq redis_range_take remote_list_def del: take_Suc_Cons)

lemma appends_Shared:
  assumes "1 \<le> limit b" and "length (remote_list b k) \<le> nat (limit b)"
  shows "\<exists>b'. appends py k vs (Shared b) = (Inr () :: 'e error + unit, Shared b') \<and>
           prefix b' = prefix b \<and> limit b' = limit b \<and>
           remote_list b' k = take (nat (limit b)) (rev (map (str py) vs) @ remote_list b k)"
  using assms
proof (induction vs arbitrary: b)
  case Nil
  then show ?case by simp
next
  case (Cons v vs)
  from measures_append_Shared [OF Cons.prems(1), of py k v]
  obtain b1 where b1:
    "measures_append py k v (Shared b) = (Inr () :: 'e error + unit, Shared b1)"
    "prefix b1 = prefix b" "limit b1 = limit b"
    "remote_list b1 k = take (nat (limit b)) (str py v # remote_list b k)"
    by blast
  from Cons.prems b1(3) have "1 \<le> limit b1" by simp
  moreover from b1(3,4) have "length (remote_list b1 k) \<le> nat (limit b1)" by simp
  ultimately have "\<exists>b'. appends py k vs (Shared b1) = (Inr () :: 'e error + unit, Shared b') \<and>
           prefix b' = prefix b1 \<and> limit b' = limit b1 \<and>
           remote_list b' k = take (nat (limit b1)) (rev (map (str py) vs) @ remote_list b1 k)"
    by (rule Cons.IH)
  then
  obtain b' where b':
    "appends py k vs (Shared b1) = (Inr () :: 'e error + unit, Shared b')"
    "prefix b' = prefix b1" "limit b' = limit b1"
    "remote_list b' k = take (nat (limit b1)) (rev (map (str py) vs) @ remote_list b1 k)"
    by blast
  have "remote_list b' k
        = take (nat (limit b)) (rev (map (str py) vs) @ str py v # remote_list b k)"
    unfolding b'(4) b1(3,4) by (rule take_append_take)
  moreover have "appends py k (v # vs) (Shared b) = (Inr () :: 'e error + unit, Shared b')"
    using b1(1) b'(1) by simp
  ultimately show ?case
    using b'(2,3) b1(2,3) by (intro exI [of _ b']) simp
qed


subsection \<open>The newest samples are kept\<close>

text \<open>
  Claim C4 is stated for every capacity of at least 1. A deque takes no bound above
  \<open>2^63 - 1\<close>: with the capacity \<open>2^63\<close> the first append to an identifier raises
  \<^verbatim>\<open>OverflowError\<close> and the store retains nothing for it, where the claim asks for one
  retained entry.
\<close>

theorem capacity_beyond_ssize_keeps_nothing:
  "(1::int) \<le> 9223372036854775808 \<and>
   appends sample_py ''job'' [1] (InMemory (InMemoryBackend (Some 9223372036854775808)))
     = (Inl OverflowError :: unit error + unit,
        InMemory (InMemoryBackend (Some 9223372036854775808))) \<and>
   history (InMemoryBackend (Some 9223372036854775808)) ''job'' = []"
  by (simp add: InMemoryBackend_def defaultdict_getitem_def deque_new_def ssize_max_def
      ssize_min_def history_def)

text \<open>
  Claim C4, amended. For every capacity \<open>L\<close> of at least 1, every identifier and every
  sequence of \<open>N\<close> appends to it, the retained history has \<open>min N L\<close> entries, so never
  more than \<open>L\<close>, and they are the \<open>L\<close> values appended last when \<open>N > L\<close>. For the
  in-memory store (fresh before the appends) this holds for the capacities up to
  \<open>2^63 - 1\<close>, the largest bound of a deque, and the deque holds the values oldest
  first; above that, the first append raises \<^verbatim>\<open>OverflowError\<close>. For the shared store
  (its list empty before the appends) it holds for every \<open>L\<close> of at least 1, and the
  list holds the texts of the values newest first.
\<close>

theorem bounded_history_keeps_newest:
  assumes "1 \<le> L"
  shows "(L \<le> ssize_max \<longrightarrow>
            (\<exists>d. appends py k vs (InMemory (InMemoryBackend (Some L)))
                    = (Inr () :: 'e error + unit, InMemory d) \<and>
                  length (history d k) = min (length vs) (nat L) \<and>
                  length (history d k) \<le> nat L \<and>
                  history d k = drop (length vs - nat L) vs)) \<and>
         (ssize_max < L \<longrightarrow>
            appends py k (v # vs) (InMemory (InMemoryBackend (Some L)))
              = (Inl OverflowError :: 'e error + unit, InMemory (InMemoryBackend (Some L)))) \<and>
         (limit b = L \<longrightarrow> remote_list b k = [] \<longrightarrow>
            (\<exists>b'. appends py k vs (Shared b) = (Inr () :: 'e error + unit, Shared b') \<and>
                  length (remote_list b' k) = min (length vs) (nat L) \<and>
                  length (remote_list b' k) \<le> nat L \<and>
                  remote_list b' k = take (nat L) (rev (map (str py) vs)) \<and>
                  rev (remote_list b' k) = map (str py) (drop (length vs - nat L) vs)))"
proof (intro conjI impI)
  assume "L \<le> ssize_max"
  with assms have inv: "dd_inv (InMemoryBackend (Some L))"
    by (simp add: dd_inv_InMemoryBackend)
  have lim: "dd_limit (InMemoryBackend (Some L)) = Some L"
    by (simp add: InMemoryBackend_def)
  have h0: "history (InMemoryBackend (Some L)) k = []"
    by (simp add: history_def InMemoryBackend_def)
  from appends_InMemory [OF inv lim, of py k vs]
  obtain d where d:
    "appends py k vs (InMemory (InMemoryBackend (Some L))) = (Inr () :: 'e error + unit, InMemory d)"
    "history d k = drop (length vs - nat L) vs"
    unfolding h0 by auto
  from d(2) have "length (history d k) = min (length vs) (nat L)" by simp
  with d show "\<exists>d. appends py k vs (InMemory (InMemoryBackend (Some L)))
                = (Inr () :: 'e error + unit, InMemory d) \<and>
              length (history d k) = min (length vs) (nat L) \<and>
              length (history d k) \<le> nat L \<and>
              history d k = drop (length vs - nat L) vs"
    by (intro exI [of _ d]) simp
next
  assume "ssize_max < L"
  then show "appends py k (v # vs) (InMemory (InMemoryBackend (Some L)))
               = (Inl OverflowError :: 'e error + unit, InMemory (InMemoryBackend (Some L)))"
    by (simp add: InMemoryBackend_def defaultdict_getitem_def deque_new_def)
next
  assume b: "limit b = L" "remote_list b k = []"
  with assms have "1 \<le> limit b" "length (remote_list b k) \<le> nat (limit b)" by simp_all
  from appends_Shared [OF this, of py vs]
  obtain b' where b':
    "appends py k vs (Shared b) = (Inr () :: 'e error + unit, Shared b')"
    "remote_list b' k = take (nat L) (rev (map (str py) vs))"
    using b by auto
  have "rev (remote_list b' k) = map (str py) (drop (length vs - nat L) vs)"
    unfolding b'(2) by (simp add: rev_take rev_map drop_map)
  moreover from b'(2) have "length (remote_list b' k) = min (length vs) (nat L)" by simp
  ultimately show "\<exists>b'. appends py k vs (Shared b) = (Inr () :: 'e error + unit, Shared b') \<and>
                  length (remote_list b' k) = min (length vs) (nat L) \<and>
                  length (remote_list b' k) \<le> nat L \<and>
                  remote_list b' k = take (nat L) (rev (map (str py) vs)) \<and>
                  rev (remote_list b' k) = map (str py) (drop (length vs - nat L) vs)"
    using b' by (intro exI [of _ b']) simp
qed

theorem bounded_history_keeps_newest_witness:
  "(1::int) \<le> 3 \<and> 3 \<le> ssize_max \<and> limit empty_shared = 3 \<and>
   remote_list empty_shared ''job'' = [] \<and>
   (\<exists>d. appends sample_py ''job'' [1, 2, 3, 4] (InMemory (InMemoryBackend (Some 3)))
           = (Inr () :: unit error + unit, InMemory d) \<and>
         history d ''job'' = [2, 3, 4]) \<and>
   (\<exists>b'. appends sample_py ''job'' [1, 2, 3, 4] (Shared empty_shared)
           = (Inr () :: unit error + unit, Shared b') \<and>
         remote_list b' ''job'' = [''4.0'', ''3.0'', ''2.0'']) \<and>
   ssize_max < 9223372036854775808 \<and>
   appends sample_py ''job'' [1, 2] (InMemory (InMemoryBackend (Some 9223372036854775808)))
     = (Inl OverflowError :: unit error + unit,
        InMemory (InMemoryBackend (Some 9223372036854775808)))"
  using bounded_history_keeps_newest [where 'e = unit and L = 3 and py = sample_py
      and k = "''job''" and vs = "[1, 2, 3, 4]" and b = empty_shared]
    bounded_history_keeps_newest [where 'e = unit and L = 9223372036854775808
      and py = sample_py and k = "''job''" and v = 1 and vs = "[2]"]
  by (simp add: empty_shared_def RedisBackend_init_def remote_list_def sample_py_def
      ssize_max_def del: appends.simps) blast


section \<open>The capacity of the in-memory store\<close>

text \<open>
  Claim C3 says that a capacity of zero or less is refused when the in-memory store is
  constructed. The code checks nothing there. A store of capacity 0 is built, takes
  appends without an exception and retains nothing; a store of capacity -1 is built as
  well, and \<^verbatim>\<open>ValueError\<close> comes from \<^verbatim>\<open>deque(maxlen=-1)\<close> at the first append.
\<close>

theorem capacity_not_checked_at_construction:
  "appends sample_py ''job'' [1, 2] (InMemory (InMemoryBackend (Some 0)))
     = (Inr () :: unit error + unit,
        InMemory \<lparr>dd_limit = Some 0, dd_table = [(''job'', \<lparr>items = [], maxlen = Some 0\<rparr>)]\<rparr>) \<and>
   fst (getsum sample_py ''job'' (Timer_init (Some (InMemory (InMemoryBackend (Some 0))))))
     = (Inr 0 :: unit error + real) \<and>
   InMemoryBackend (Some (- 1)) = \<lparr>dd_limit = Some (- 1), dd_table = []\<rparr> \<and>
   measures_append sample_py ''job'' 1 (InMemory (InMemoryBackend (Some (- 1))))
     = (Inl ValueError :: unit error + unit, InMemory (InMemoryBackend (Some (- 1))))"
  by (simp add: InMemoryBackend_def defaultdict_getitem_def deque_new_def deque_append_def
      Timer_init_def getsum_InMemory history_def ssize_max_def ssize_min_def)

text \<open>
  What a subscript of the dictionary does depends on the captured limit only when the
  key is missing.
\<close>

lemma getitem_limit:
  assumes "dd_limit d = Some L" and "0 \<le> L" and "L \<le> ssize_max"
  shows "\<exists>q d'. defaultdict_getitem d k = (Inr (q, d') :: 'e error + deque \<times> defaultdict) \<and>
           dd_limit d' = Some L"
  using assms
  by (cases "map_of (dd_table d) k")
     (simp_all add: defaultdict_getitem_def deque_new_def ssize_min_def)

lemma getitem_negative:
  assumes "dd_limit d = Some L" and "ssize_min \<le> L" and "L < 0"
    and "\<not> defaultdict_contains d k"
  shows "defaultdict_getitem d k = (Inl ValueError :: 'e error + deque \<times> defaultdict)"
  using assms
  by (simp add: defaultdict_getitem_def deque_new_def defaultdict_contains_def ssize_max_def)

lemma getitem_overflow:
  assumes "dd_limit d = Some L" and "L < ssize_min \<or> ssize_max < L"
    and "\<not> defaultdict_contains d k"
  shows "defaultdict_getitem d k = (Inl OverflowError :: 'e error + deque \<times> defaultdict)"
  using assms
  by (auto simp: defaultdict_getitem_def deque_new_def defaultdict_contains_def)

text \<open>
  Claim C3, amended. Constructing the in-memory store never raises, whatever the
  capacity \<open>L\<close>. For \<open>L\<close> from 0 to \<open>2^63 - 1\<close>, so for every \<open>L\<close> of at least 1 that a
  deque accepts as its bound, no operation on the store fails (membership, length,
  iteration for the sum, append), and the store keeps its capacity; with \<open>L = 0\<close>
  every history stays empty. For every other \<open>L\<close> the first subscript of an identifier
  without a history (its first append) raises and leaves the store as it was:
  \<^verbatim>\<open>ValueError\<close> for \<open>L\<close> from \<open>- 2^63\<close> to -1, \<^verbatim>\<open>OverflowError\<close> for \<open>L\<close> below
  \<open>- 2^63\<close> or above \<open>2^63 - 1\<close>; the statistics of such an identifier still answer
  0.0.
\<close>

theorem capacity_checked_at_first_use:
  "dd_limit (InMemoryBackend (Some L)) = Some L \<and> dd_table (InMemoryBackend (Some L)) = [] \<and>
   (0 \<le> L \<longrightarrow> L \<le> ssize_max \<longrightarrow> dd_limit d = Some L \<longrightarrow>
      (\<exists>r. measures_contains k (InMemory d) = (Inr r :: 'e error + bool, InMemory d)) \<and>
      (\<exists>n d'. measures_len k (InMemory d) = (Inr n :: 'e error + nat, InMemory d') \<and>
              dd_limit d' = Some L) \<and>
      (\<exists>s d'. measures_sum py k (InMemory d) = (Inr s :: 'e error + real, InMemory d') \<and>
              dd_limit d' = Some L) \<and>
      (\<exists>d'. measures_append py k v (InMemory d) = (Inr () :: 'e error + unit, InMemory d') \<and>
            dd_limit d' = Some L)) \<and>
   (\<exists>d'. appends py k vs (InMemory (InMemoryBackend (Some 0)))
            = (Inr () :: 'e error + unit, InMemory d') \<and> history d' k = []) \<and>
   (ssize_min \<le> L \<longrightarrow> L < 0 \<longrightarrow> dd_limit d = Some L \<longrightarrow> \<not> defaultdict_contains d k \<longrightarrow>
      measures_append py k v (InMemory d) = (Inl ValueError :: 'e error + unit, InMemory d) \<and>
      measures_len k (InMemory d) = (Inl ValueError :: 'e error + nat, InMemory d) \<and>
      measures_sum py k (InMemory d) = (Inl ValueError :: 'e error + real, InMemory d) \<and>
      fst (getsum py k \<lparr>measures = InMemory d\<rparr>) = (Inr 0 :: 'e error + real)) \<and>
   (L < ssize_min \<or> ssize_max < L \<longrightarrow> dd_limit d = Some L \<longrightarrow> \<not> defaultdict_contains d k \<longrightarrow>
      measures_append py k v (InMemory d) = (Inl OverflowError :: 'e error + unit, InMemory d) \<and>
      measures_len k (InMemory d) = (Inl OverflowError :: 'e error + nat, InMemory d) \<and>
      measures_sum py k (InMemory d) = (Inl OverflowError :: 'e error + real, InMemory d) \<and>
      fst (getsum py k \<lparr>measures = InMemory d\<rparr>) = (Inr 0 :: 'e error + real))"
proof (intro conjI impI)
  show "dd_limit (InMemoryBackend (Some L)) = Some L" "dd_table (InMemoryBackend (Some L)) = []"
    by (simp_all add: InMemoryBackend_def)
next
  show "\<exists>r. measures_contains k (InMemory d) = (Inr r :: 'e error + bool, InMemory d)"
    by simp
next
  assume a: "0 \<le> L" "L \<le> ssize_max" "dd_limit d = Some L"
  from getitem_limit [OF a(3,1,2), of k, where 'e = 'e]
  obtain q d' where g: "defaultdict_getitem d k = (Inr (q, d') :: 'e error + deque \<times> defaultdict)"
    "dd_limit d' = Some L"
    by blast
  then show "\<exists>n d'. measures_len k (InMemory d) = (Inr n :: 'e error + nat, InMemory d') \<and>
              dd_limit d' = Some L"
    by simp
  from g show "\<exists>s d'. measures_sum py k (InMemory d) = (Inr s :: 'e error + real, InMemory d') \<and>
              dd_limit d' = Some L"
    by (simp add: py_sum_Inr)
  from g show "\<exists>d'. measures_append py k v (InMemory d) = (Inr () :: 'e error + unit, InMemory d') \<and>
            dd_limit d' = Some L"
    by simp
next
  have inv: "dd_inv (InMemoryBackend (Some 0))"
    by (simp add: dd_inv_InMemoryBackend ssize_max_def)
  have lim: "dd_limit (InMemoryBackend (Some 0)) = Some 0"
    by (simp add: InMemoryBackend_def)
  from appends_InMemory [OF inv lim, of py k vs, where 'e = 'e]
  show "\<exists>d'. appends py k vs (InMemory (InMemoryBackend (Some 0)))
            = (Inr () :: 'e error + unit, InMemory d') \<and> history d' k = []"
    by auto
next
  assume a: "ssize_min \<le> L" "L < 0" "dd_limit d = Some L" "\<not> defaultdict_contains d k"
  note g = getitem_negative [OF a(3,1,2,4)]
  show "measures_append py k v (InMemory d) = (Inl ValueError :: 'e error + unit, InMemory d)"
    by (simp add: g)
  show "measures_len k (InMemory d) = (Inl ValueError :: 'e error + nat, InMemory d)"
    by (simp add: g)
  show "measures_sum py k (InMemory d) = (Inl ValueError :: 'e error + real, InMemory d)"
    by (simp add: g)
  from a(4) show "fst (getsum py k \<lparr>measures = InMemory d\<rparr>) = (Inr 0 :: 'e error + real)"
    by (simp add: getsum_InMemory history_def defaultdict_contains_def)
next
  assume a: "L < ssize_min \<or> ssize_max < L" "dd_limit d = Some L" "\<not> defaultdict_contains d k"
  note g = getitem_overflow [OF a(2,1,3)]
  show "measures_append py k v (InMemory d) = (Inl OverflowError :: 'e error + unit, InMemory d)"
    by (simp add: g)
  show "measures_len k (InMemory d) = (Inl OverflowError :: 'e error + nat, InMemory d)"
    by (simp add: g)
  show "measures_sum py k (InMemory d) = (Inl OverflowError :: 'e error + real, InMemory d)"
    by (simp add: g)
  from a(3) show "fst (getsum py k \<lparr>measures = InMemory d\<rparr>) = (Inr 0 :: 'e error + real)"
    by (simp add: getsum_InMemory history_def defaultdict_contains_def)
qed

theorem capacity_checked_at_first_use_witness:
  "(0::int) \<le> 1 \<and> 1 \<le> ssize_max \<and> dd_limit (InMemoryBackend (Some 1)) = Some 1 \<and>
   ssize_min \<le> - 1 \<and> (- 1 :: int) < 0 \<and>
   dd_limit (InMemoryBackend (Some (- 1))) = Some (- 1) \<and>
   \<not> defaultdict_contains (InMemoryBackend (Some (- 1))) ''job'' \<and>
   ssize_max < 9223372036854775808 \<and>
   dd_limit (InMemoryBackend (Some 9223372036854775808)) = Some 9223372036854775808 \<and>
   \<not> defaultdict_contains (InMemoryBackend (Some 9223372036854775808)) ''job'' \<and>
   (\<exists>d'. measures_append sample_py ''job'' 2 (InMemory (InMemoryBackend (Some 1)))
           = (Inr () :: unit error + unit, InMemory d') \<and> dd_limit d' = Some 1) \<and>
   measures_append sample_py ''job'' 2 (InMemory (InMemoryBackend (Some (- 1))))
     = (Inl ValueError :: unit error + unit, InMemory (InMemoryBackend (Some (- 1)))) \<and>
   measures_append sample_py ''job'' 2 (InMemory (InMemoryBackend (Some 9223372036854775808)))
     = (Inl OverflowError :: unit error + unit,
        InMemory (InMemoryBackend (Some 9223372036854775808)))"
  using capacity_checked_at_first_use [where 'e = unit and L = 1 and py = sample_py
      and k = "''job''" and v = 2 and d = "InMemoryBackend (Some 1)" and vs = "[]"]
    capacity_checked_at_first_use [where 'e = unit and L = "- 1" and py = sample_py
      and k = "''job''" and v = 2 and d = "InMemoryBackend (Some (- 1))" and vs = "[]"]
    capacity_checked_at_first_use [where 'e = unit and L = 9223372036854775808
      and py = sample_py and k = "''job''" and v = 2
      and d = "InMemoryBackend (Some 9223372036854775808)" and vs = "[]"]
  by (simp add: InMemoryBackend_def defaultdict_contains_def ssize_max_def ssize_min_def)


section \<open>Leaving a timed block\<close>

text \<open>
  Claim C1 says that a timed block whose body raises still records one sample on its way
  out. The generator has no \<^verbatim>\<open>try\<close> around its \<^verbatim>\<open>yield\<close>, so the statements after
  it do not run then: with a clock that counts its readings, a body that raises
  \<^verbatim>\<open>boom\<close> leaves the store without a sample for the identifier, and the clock has been
  read once, on entry.
\<close>

theorem raising_body_records_nothing:
  "Timer_call sample_py None ''job'' (\<lambda>w. (w, w + 1)) (\<lambda>st. (Some ''boom'', st))
     (Timer_init (Some (InMemory (InMemoryBackend (Some 3)))), 0 :: real)
   = (Inl (BodyError ''boom''),
      (Timer_init (Some (InMemory (InMemoryBackend (Some 3)))), 1)) \<and>
   recorded (InMemory (InMemoryBackend (Some 3))) ''job'' = 0"
  by (simp add: Timer_call_def Timer_init_def InMemoryBackend_def history_def)

lemma last_kept:
  assumes "length h \<le> m" and "0 < m"
  shows "last (drop (Suc (length h) - m) (h @ [x])) = x"
proof -
  from assms have "Suc (length h) - m \<le> length h" by simp
  then have "drop (Suc (length h) - m) (h @ [x]) = drop (Suc (length h) - m) h @ [x]"
    by simp
  then show ?thesis by simp
qed

text \<open>The exit of a block whose body returns is one append, then the signal.\<close>

lemma Timer_call_returns:
  assumes "clock w = (start, w1)" and "body (self, w1) = (None, (self2, w2))"
    and "clock w2 = (end_time, w3)"
  shows "snd (Timer_call py timer_end k clock body (self, w))
           = (snd (self_measures
                (measures_append py k (end_time - start)
                   :: backend \<Rightarrow> ('e error + unit) \<times> backend) self2), w3)"
    and "timer_end = None \<Longrightarrow>
         fst (Timer_call py timer_end k clock body (self, w))
           = (fst (self_measures (measures_append py k (end_time - start)) self2)
                :: 'e error + unit)"
  using assms
  by (simp_all add: Timer_call_def split: prod.splits sum.splits option.splits)

text \<open>
  Claim C1, amended. For every identifier, time source and store, a timed block whose
  body raises appends no sample: the error reaches the caller unchanged, the state is
  the one the body left, and the time source is not read again. When the body returns,
  the block reads the time source \<open>clock\<close> again and runs exactly one append of
  \<open>end - start\<close> to the entry of the identifier, whether or not the signal raises
  afterwards; the store is what that append leaves, and without a signal the block ends
  as that append does. What the append retains is the store's matter: on an in-memory
  store whose capacity \<open>L\<close> is at least 1 and at most \<open>2^63 - 1\<close> and whose deques all
  have the bound \<open>L\<close> and respect it, the sample becomes the newest entry of the
  bounded history and the other identifiers keep theirs; on a redis store of limit at
  least 1 its text becomes the head of the trimmed list. The sample is not negative
  when the second reading is not before the first, as with a monotonic time source.
\<close>

theorem timed_block_exit:
  "(clock w = (start, w1) \<longrightarrow> body (self, w1) = (Some e, st2) \<longrightarrow>
      Timer_call py timer_end k clock body (self, w) = (Inl (BodyError e), st2)) \<and>
   (clock w = (start, w1) \<longrightarrow> body (self, w1) = (None, (self2, w2)) \<longrightarrow>
    clock w2 = (end_time, w3) \<longrightarrow>
      snd (Timer_call py timer_end k clock body (self, w))
        = (snd (self_measures
             (measures_append py k (end_time - start)
                :: backend \<Rightarrow> ('e error + unit) \<times> backend) self2), w3) \<and>
      (timer_end = None \<longrightarrow>
         fst (Timer_call py timer_end k clock body (self, w))
           = (fst (self_measures (measures_append py k (end_time - start)) self2)
                :: 'e error + unit)) \<and>
      (start \<le> end_time \<longrightarrow> 0 \<le> end_time - start)) \<and>
   (clock w = (start, w1) \<longrightarrow> body (self, w1) = (None, (self2, w2)) \<longrightarrow>
    clock w2 = (end_time, w3) \<longrightarrow>
    measures self2 = InMemory d \<longrightarrow> dd_inv d \<longrightarrow> dd_limit d = Some L \<longrightarrow> 1 \<le> L \<longrightarrow>
      (\<exists>d'. snd (Timer_call py timer_end k clock body (self, w))
              = (self2\<lparr>measures := InMemory d'\<rparr>, w3) \<and>
            (timer_end = None \<longrightarrow>
               fst (Timer_call py timer_end k clock body (self, w))
                 = (Inr () :: 'e error + unit)) \<and>
            history d' k
              = drop (Suc (length (history d k)) - nat L) (history d k @ [end_time - start]) \<and>
            last (history d' k) = end_time - start \<and>
            (start \<le> end_time \<longrightarrow> 0 \<le> last (history d' k)) \<and>
            (\<forall>k'. k' \<noteq> k \<longrightarrow> history d' k' = history d k'))) \<and>
   (clock w = (start, w1) \<longrightarrow> body (self, w1) = (None, (self2, w2)) \<longrightarrow>
    clock w2 = (end_time, w3) \<longrightarrow>
    measures self2 = Shared b \<longrightarrow> 1 \<le> limit b \<longrightarrow>
      (\<exists>b'. snd (Timer_call py timer_end k clock body (self, w))
              = (self2\<lparr>measures := Shared b'\<rparr>, w3) \<and>
            (timer_end = None \<longrightarrow>
               fst (Timer_call py timer_end k clock body (self, w))
                 = (Inr () :: 'e error + unit)) \<and>
            remote_list b' k
              = take (nat (limit b)) (str py (end_time - start) # remote_list b k)))"
proof (intro conjI impI)
  assume "clock w = (start, w1)" "body (self, w1) = (Some e, st2)"
  then show "Timer_call py timer_end k clock body (self, w) = (Inl (BodyError e), st2)"
    by (simp add: Timer_call_def)
next
  assume run: "clock w = (start, w1)" "body (self, w1) = (None, (self2, w2))"
    "clock w2 = (end_time, w3)"
  show "snd (Timer_call py timer_end k clock body (self, w))
        = (snd (self_measures
             (measures_append py k (end_time - start)
                :: backend \<Rightarrow> ('e error + unit) \<times> backend) self2), w3)"
    by (rule Timer_call_returns(1)
        [where clock = clock and body = body and self = self and w = w, OF run])
next
  assume run: "clock w = (start, w1)" "body (self, w1) = (None, (self2, w2))"
    "clock w2 = (end_time, w3)"
  assume "timer_end = None"
  then show "fst (Timer_call py timer_end k clock body (self, w))
           = (fst (self_measures (measures_append py k (end_time - start)) self2)
                :: 'e error + unit)"
    by (rule Timer_call_returns(2)
        [where clock = clock and body = body and self = self and w = w, OF run])
next
  assume "start \<le> end_time"
  then show "0 \<le> end_time - start" by simp
next
  assume run: "clock w = (start, w1)" "body (self, w1) = (None, (self2, w2))"
    "clock w2 = (end_time, w3)"
  assume st: "measures self2 = InMemory d" "dd_inv d" "dd_limit d = Some L" "1 \<le> L"
  from measures_append_InMemory [OF st(2,3), of py k "end_time - start", where 'e = 'e]
  obtain d' where d':
    "measures_append py k (end_time - start) (InMemory d)
       = (Inr () :: 'e error + unit, InMemory d')"
    "history d' k
       = drop (Suc (length (history d k)) - nat L) (history d k @ [end_time - start])"
    "\<forall>k'. k' \<noteq> k \<longrightarrow> history d' k' = history d k'"
    by blast
  from st(4) have "0 < nat L" by simp
  with d'(2) history_le_limit [OF st(2,3), of k]
  have l: "last (history d' k) = end_time - start"
    by (simp add: last_kept)
  have s: "snd (Timer_call py timer_end k clock body (self, w))
             = (self2\<lparr>measures := InMemory d'\<rparr>, w3)"
    using st(1) d'(1)
    by (simp add: Timer_call_returns(1)
        [where clock = clock and body = body and self = self and w = w, OF run] self_measures_def)
  have f: "timer_end = None \<longrightarrow>
             fst (Timer_call py timer_end k clock body (self, w)) = (Inr () :: 'e error + unit)"
    using st(1) d'(1)
    by (simp add: Timer_call_returns(2)
        [where clock = clock and body = body and self = self and w = w, OF run] self_measures_def)
  from s f l d'(2,3)
  show "\<exists>d'. snd (Timer_call py timer_end k clock body (self, w))
              = (self2\<lparr>measures := InMemory d'\<rparr>, w3) \<and>
            (timer_end = None \<longrightarrow>
               fst (Timer_call py timer_end k clock body (self, w))
                 = (Inr () :: 'e error + unit)) \<and>
            history d' k
              = drop (Suc (length (history d k)) - nat L) (history d k @ [end_time - start]) \<and>
            last (history d' k) = end_time - start \<and>
            (start \<le> end_time \<longrightarrow> 0 \<le> last (history d' k)) \<and>
            (\<forall>k'. k' \<noteq> k \<longrightarrow> history d' k' = history d k')"
    by (intro exI [of _ d']) simp
next
  assume run: "clock w = (start, w1)" "body (self, w1) = (None, (self2, w2))"
    "clock w2 = (end_time, w3)"
  assume st: "measures self2 = Shared b" "1 \<le> limit b"
  from measures_append_Shared [OF st(2), of py k "end_time - start", where 'e = 'e]
  obtain b' where b':
    "measures_append py k (end_time - start) (Shared b)
       = (Inr () :: 'e error + unit, Shared b')"
    "remote_list b' k = take (nat (limit b)) (str py (end_time - start) # remote_list b k)"
    by blast
  have s: "snd (Timer_call py timer_end k clock body (self, w))
             = (self2\<lparr>measures := Shared b'\<rparr>, w3)"
    using st(1) b'(1)
    by (simp add: Timer_call_returns(1)
        [where clock = clock and body = body and self = self and w = w, OF run] self_measures_def)
  have f: "timer_end = None \<longrightarrow>
             fst (Timer_call py timer_end k clock body (self, w)) = (Inr () :: 'e error + unit)"
    using st(1) b'(1)
    by (simp add: Timer_call_returns(2)
        [where clock = clock and body = body and self = self and w = w, OF run] self_measures_def)
  from s f b'(2)
  show "\<exists>b'. snd (Timer_call py timer_end k clock body (self, w))
              = (self2\<lparr>measures := Shared b'\<rparr>, w3) \<and>
            (timer_end = None \<longrightarrow>
               fst (Timer_call py timer_end k clock body (self, w))
                 = (Inr () :: 'e error + unit)) \<and>
            remote_list b' k
              = take (nat (limit b)) (str py (end_time - start) # remote_list b k)"
    by (intro exI [of _ b']) simp
qed

theorem timed_block_exit_witness:
  "Timer_call sample_py None ''job'' (\<lambda>w. (w, w + 1)) (\<lambda>st. (Some ''boom'', st))
     (Timer_init (Some (InMemory (InMemoryBackend (Some 3)))), 0 :: real)
   = (Inl (BodyError ''boom''),
      (Timer_init (Some (InMemory (InMemoryBackend (Some 3)))), 1)) \<and>
   dd_inv (InMemoryBackend (Some 3)) \<and> dd_limit (InMemoryBackend (Some 3)) = Some 3 \<and>
   (\<exists>d'. Timer_call sample_py None ''job'' (\<lambda>w. (w, w + 1)) (\<lambda>(t, w). (None :: string option, (t, w + 2)))
            (Timer_init (Some (InMemory (InMemoryBackend (Some 3)))), 0 :: real)
          = (Inr (), (\<lparr>measures = InMemory d'\<rparr>, 4)) \<and>
         history d' ''job'' = [3]) \<and>
   (1::int) \<le> limit empty_shared \<and>
   (\<exists>b'. Timer_call sample_py None ''job'' (\<lambda>w. (w, w + 1)) (\<lambda>(t, w). (None :: string option, (t, w + 2)))
            (Timer_init (Some (Shared empty_shared)), 0 :: real)
          = (Inr (), (\<lparr>measures = Shared b'\<rparr>, 4)) \<and>
         remote_list b' ''job'' = [''3.0''])"
proof -
  let ?T = "Timer_init (Some (InMemory (InMemoryBackend (Some 3))))"
  let ?S = "Timer_init (Some (Shared empty_shared))"
  let ?m = "\<lambda>w :: real. (w, w + 1)"
  let ?ok = "\<lambda>(t :: Timer, w :: real). (None :: string option, (t, w + 2))"
  have inv: "dd_inv (InMemoryBackend (Some 3))"
    by (simp add: dd_inv_InMemoryBackend ssize_max_def)
  have a: "Timer_call sample_py None ''job'' ?m (\<lambda>st. (Some ''boom'', st)) (?T, 0)
           = (Inl (BodyError ''boom''), (?T, 1))"
    using timed_block_exit [where py = sample_py and timer_end = None and k = "''job''"
        and clock = ?m and body = "\<lambda>st. (Some ''boom'', st)" and self = ?T and w = 0
        and start = 0 and ?w1.0 = 1 and e = "''boom''" and ?st2.0 = "(?T, 1)",
        THEN conjunct1]
    by simp
  have b: "\<exists>d'. Timer_call sample_py None ''job'' ?m ?ok (?T, 0)
                 = (Inr (), (\<lparr>measures = InMemory d'\<rparr>, 4)) \<and>
               history d' ''job'' = [3]"
    using inv timed_block_exit [where py = sample_py and timer_end = None and k = "''job''"
        and clock = ?m and body = ?ok and self = ?T and w = 0
        and start = 0 and ?w1.0 = 1 and ?self2.0 = ?T and ?w2.0 = 3 and end_time = 3
        and ?w3.0 = 4 and d = "InMemoryBackend (Some 3)" and L = 3,
        THEN conjunct2, THEN conjunct2, THEN conjunct1]
    by (auto simp: Timer_init_def InMemoryBackend_def history_def prod_eq_iff)
  have c: "\<exists>b'. Timer_call sample_py None ''job'' ?m ?ok (?S, 0)
                 = (Inr (), (\<lparr>measures = Shared b'\<rparr>, 4)) \<and>
               remote_list b' ''job'' = [''3.0'']"
    using timed_block_exit [where py = sample_py and timer_end = None and k = "''job''"
        and clock = ?m and body = ?ok and self = ?S and w = 0
        and start = 0 and ?w1.0 = 1 and ?self2.0 = ?S and ?w2.0 = 3 and end_time = 3
        and ?w3.0 = 4 and b = empty_shared,
        THEN conjunct2, THEN conjunct2, THEN conjunct2]
    by (auto simp: Timer_init_def empty_shared_def RedisBackend_init_def remote_list_def
        sample_py_def prod_eq_iff)
  from a inv b c show ?thesis
    by (simp add: InMemoryBackend_def empty_shared_def RedisBackend_init_def)
qed


section \<open>Reading back what was appended to the redis store\<close>






end
